theory Spec2Isabelle
  imports Main
begin

section \<open>JavaScript values, exceptions and control flow\<close>

text \<open>
  TypeScript types are erased when the program runs, and the program casts what
  \<^verbatim>\<open>JSON.parse\<close> returns to \<^verbatim>\<open>AnalysisResult\<close> without looking at it.
  The values that flow through the pipeline are therefore modelled as untyped JavaScript
  values. Numbers are integers here (nothing below depends on a fractional score), and
  a string is a list of code units below 256.
\<close>

datatype jsval =
    JUndefined
  | JNull
  | JBool bool
  | JNum int
  | JStr string
  | JArr "jsval list"
  | JObj "(string \<times> jsval) list"

text \<open>
  A thrown value is an \<^verbatim>\<open>Error\<close> (or a subclass: TypeError, SyntaxError, the HTTP
  client's errors) carrying its message, or any other value.
\<close>

datatype thrown = JsError string | NonError jsval

text \<open>An asynchronous call either rejects (\<open>Inl\<close>) or resolves (\<open>Inr\<close>).\<close>

definition bind :: "thrown + 'a \<Rightarrow> ('a \<Rightarrow> thrown + 'b) \<Rightarrow> thrown + 'b" where
  "bind m f = (case m of Inl e \<Rightarrow> Inl e | Inr v \<Rightarrow> f v)"

definition try_catch :: "thrown + 'a \<Rightarrow> (thrown \<Rightarrow> thrown + 'a) \<Rightarrow> thrown + 'a" where
  "try_catch body handler = (case body of Inl e \<Rightarrow> handler e | Inr v \<Rightarrow> Inr v)"

fun truthy :: "jsval \<Rightarrow> bool" where
  "truthy JUndefined = False"
| "truthy JNull = False"
| "truthy (JBool b) = b"
| "truthy (JNum n) = (n \<noteq> 0)"
| "truthy (JStr s) = (s \<noteq> [])"
| "truthy (JArr xs) = True"
| "truthy (JObj fields) = True"

text \<open>The operator \<^verbatim>\<open>a || b\<close>.\<close>

definition or_else :: "jsval \<Rightarrow> jsval \<Rightarrow> jsval" where
  "or_else a b = (if truthy a then a else b)"

text \<open>The message of the TypeError raised by a property read on null or undefined (V8's wording).\<close>

definition cannot_read :: "string \<Rightarrow> string \<Rightarrow> string" where
  "cannot_read what k =
     ''Cannot read properties of '' @ what @ '' (reading '' @ [CHR 0x27] @ k @ [CHR 0x27] @ '')''"

text \<open>
  The property read \<^verbatim>\<open>v.k\<close>, for the property names this program reads
  (\<^verbatim>\<open>AbstractURL\<close>, \<^verbatim>\<open>suitabilityScore\<close>, \<^verbatim>\<open>category\<close>,
  \<^verbatim>\<open>educationalPlan\<close>), none of which a built-in prototype defines: a read on null
  or undefined throws, a read on an object yields the own property or undefined, a read on
  any other value yields undefined.
\<close>

fun get_prop :: "jsval \<Rightarrow> string \<Rightarrow> thrown + jsval" where
  "get_prop JUndefined k = Inl (JsError (cannot_read ''undefined'' k))"
| "get_prop JNull k = Inl (JsError (cannot_read ''null'' k))"
| "get_prop (JObj fields) k = Inr (case map_of fields k of None \<Rightarrow> JUndefined | Some v \<Rightarrow> v)"
| "get_prop v k = Inr JUndefined"

text \<open>
  \<^verbatim>\<open>String.prototype.trim\<close> removes white space and line terminators from both
  ends; below 256 these are the six ASCII ones and the no-break space.
\<close>

definition is_whitespace :: "char \<Rightarrow> bool" where
  "is_whitespace c =
     (c \<in> {CHR 0x09, CHR 0x0A, CHR 0x0B, CHR 0x0C, CHR 0x0D, CHR 0x20, CHR 0xA0})"

definition trim :: "string \<Rightarrow> string" where
  "trim s = rev (dropWhile is_whitespace (rev (dropWhile is_whitespace s)))"

text \<open>
  \<^verbatim>\<open>encodeURIComponent\<close> keeps letters, digits and \<^verbatim>\<open>- _ . ! ~ * ' ( )\<close>, and
  writes every other code unit as the percent-escaped bytes of its UTF-8 encoding (one
  byte below 128, two from 128 to 255). It throws only on a lone surrogate, which is not
  a code unit below 256.
\<close>

definition hex_digit :: "nat \<Rightarrow> char" where
  "hex_digit d = ''0123456789ABCDEF'' ! (d mod 16)"

definition percent :: "nat \<Rightarrow> string" where
  "percent b = [CHR ''%'', hex_digit (b div 16), hex_digit (b mod 16)]"

definition unreserved :: "char \<Rightarrow> bool" where
  "unreserved c =
     (c \<in> set ''ABCDEFGHIJKLMNOPQRSTUVWXYZabcdefghijklmnopqrstuvwxyz0123456789-_.!~*()''
      \<or> c = CHR 0x27)"

definition encode_unit :: "char \<Rightarrow> string" where
  "encode_unit c =
     (let n = (of_char c :: nat) in
      if unreserved c then [c]
      else if n < 128 then percent n
      else percent (192 + n div 64) @ percent (128 + n mod 64))"

definition encodeURIComponent :: "string \<Rightarrow> string" where
  "encodeURIComponent s = concat (map encode_unit s)"


section \<open>The parsed listing page\<close>

text \<open>
  The document that \<^verbatim>\<open>cheerio.load\<close> builds: text nodes, and elements with a tag
  name, attributes and children. The selections the scraper makes are the library's
  documented ones: a selection is a list of elements in document order,
  \<^verbatim>\<open>$('.c')\<close> selects every element of the document whose class attribute has the
  token \<^verbatim>\<open>c\<close>, \<^verbatim>\<open>find\<close> selects among the descendants of an element,
  \<^verbatim>\<open>text()\<close> joins the text of every selected element, and \<^verbatim>\<open>attr\<close> reads
  the attribute of the first selected element.
\<close>

datatype node = Text string | Element string "(string \<times> string) list" "node list"

fun descendants :: "node \<Rightarrow> node list" where
  "descendants (Text s) = []"
| "descendants (Element tg attribs children) = concat (map (\<lambda>c. c # descendants c) children)"

fun textContent :: "node \<Rightarrow> string" where
  "textContent (Text s) = s"
| "textContent (Element tg attribs children) = concat (map textContent children)"

fun tokens :: "string \<Rightarrow> string \<Rightarrow> string list" where
  "tokens acc [] = (if acc = [] then [] else [acc])"
| "tokens acc (c # cs) =
     (if is_whitespace c then (if acc = [] then tokens [] cs else acc # tokens [] cs)
      else tokens (acc @ [c]) cs)"

fun has_class :: "string \<Rightarrow> node \<Rightarrow> bool" where
  "has_class c (Text s) = False"
| "has_class c (Element tg attribs children) =
     (case map_of attribs ''class'' of None \<Rightarrow> False | Some v \<Rightarrow> c \<in> set (tokens [] v))"

fun has_tag :: "string \<Rightarrow> node \<Rightarrow> bool" where
  "has_tag t (Text s) = False"
| "has_tag t (Element tg attribs children) = (tg = t)"

definition select :: "(node \<Rightarrow> bool) \<Rightarrow> node list \<Rightarrow> node list" where
  "select matches document = filter matches (concat (map (\<lambda>r. r # descendants r) document))"

definition find_in :: "(node \<Rightarrow> bool) \<Rightarrow> node \<Rightarrow> node list" where
  "find_in matches element = filter matches (descendants element)"

definition text_of :: "node list \<Rightarrow> string" where
  "text_of selection = concat (map textContent selection)"

fun attr :: "string \<Rightarrow> node list \<Rightarrow> string option" where
  "attr a [] = None"
| "attr a (Text s # rest) = None"
| "attr a (Element tg attribs children # rest) = map_of attribs a"


section \<open>The record schema (types.ts)\<close>

text \<open>
  The optional fields that the merge writes hold whatever value the collaborators
  delivered; \<open>JUndefined\<close> stands for an absent field.
\<close>

record Project =
  id' :: string
  name :: string
  description :: string
  url :: string
  officialWebsite :: jsval
  results :: "string list option"
  educationalPlan :: jsval
  suitabilityScore :: jsval
  category :: jsval

text \<open>The values that the declared type of \<^verbatim>\<open>category\<close> admits.\<close>

definition is_category :: "jsval \<Rightarrow> bool" where
  "is_category v = (v \<in> {JStr ''school'', JStr ''adult'', JStr ''both'', JStr ''unsuitable''})"


section \<open>The outside world\<close>

text \<open>
  What the program calls and does not define: the HTTP client (\<open>axios_get\<close> gives the
  \<^verbatim>\<open>data\<close> of the response, or rejects), the markup parser, the UUID generator (the
  value its \<open>k\<close>-th call returns), and the runtime's \<^verbatim>\<open>JSON.parse\<close>, which returns
  a value or throws a SyntaxError.
\<close>

record world =
  axios_get :: "string \<Rightarrow> thrown + jsval"
  cheerio_load :: "jsval \<Rightarrow> thrown + node list"
  randomUUID :: "nat \<Rightarrow> string"
  JSON_parse :: "string \<Rightarrow> thrown + jsval"

text \<open>The completion endpoint, as the program uses it.\<close>

record request =
  messages :: "(string \<times> string) list"
  model :: string
  response_format :: string

record message =
  content :: "string option"

record choice =
  message :: message

record completion =
  choices :: "choice list"

type_synonym client = "request \<Rightarrow> thrown + completion"


section \<open>services/projectAnalyzer.ts\<close>

text \<open>
  The module-level variable \<^verbatim>\<open>openai\<close>: set when the key read from the environment
  is truthy and the client's constructor returns; left null otherwise.
\<close>

definition init_openai :: "(thrown + string option) \<Rightarrow> (string \<Rightarrow> thrown + client) \<Rightarrow> client option" where
  "init_openai env_key new_OpenAI =
     (case bind env_key (\<lambda>apiKey.
        case apiKey of
          None \<Rightarrow> Inr None
        | Some k \<Rightarrow> if k \<noteq> [] then bind (new_OpenAI k) (\<lambda>c. Inr (Some c)) else Inr None)
      of Inl error \<Rightarrow> None | Inr v \<Rightarrow> v)"

text \<open>The object that the loop body pushes for one element, with the UUID of call \<open>k\<close>.\<close>

definition scraped_project :: "world \<Rightarrow> nat \<Rightarrow> node \<Rightarrow> Project" where
  "scraped_project w k element =
     \<lparr> id' = randomUUID w k,
       name = trim (text_of (find_in (has_class ''project-title'') element)),
       description = trim (text_of (find_in (has_class ''project-description'') element)),
       url = (case attr ''href'' (find_in (has_tag ''a'') element) of
                None \<Rightarrow> [] | Some h \<Rightarrow> if h \<noteq> [] then h else []),
       officialWebsite = JUndefined,
       results = None,
       educationalPlan = JUndefined,
       suitabilityScore = JUndefined,
       category = JStr ''unsuitable'' \<rparr>"

text \<open>
  The loop \<^verbatim>\<open>$('.project-item').each\<close> over the selected elements; \<open>k\<close> counts the
  calls of the UUID generator so far.
\<close>

fun each_item :: "world \<Rightarrow> nat \<Rightarrow> node list \<Rightarrow> Project list \<Rightarrow> Project list" where
  "each_item w k [] projects = projects"
| "each_item w k (element # rest) projects =
     each_item w (Suc k) rest (projects @ [scraped_project w k element])"

definition listing_url :: string where
  "listing_url = ''https://ied.eu/eu-programmes/ied-projects/''"

definition scrapeProjects :: "world \<Rightarrow> nat \<Rightarrow> thrown + Project list" where
  "scrapeProjects w k =
     try_catch
       (bind (axios_get w listing_url) (\<lambda>response_data.
        bind (cheerio_load w response_data) (\<lambda>document.
        Inr (each_item w k (select (has_class ''project-item'') document) []))))
       (\<lambda>error. Inr [])"

definition prompt :: "Project \<Rightarrow> string" where
  \<open>prompt project =
     ''\<newline>'' @
     ''        Analyze this EU project for educational potential:\<newline>'' @
     ''        Name: '' @ name project @ ''\<newline>'' @
     ''        Description: '' @ description project @ ''\<newline>'' @
     ''        \<newline>'' @
     ''        Please evaluate:\<newline>'' @
     ''        1. Suitability for educational use (score 0-100)\<newline>'' @
     ''        2. Target audience (school/adult/both)\<newline>'' @
     ''        3. Create a detailed educational implementation plan\<newline>'' @
     ''        4. Provide specific recommendations for implementation\<newline>'' @
     ''        \<newline>'' @
     ''        Format the response as JSON with the following structure:\<newline>'' @
     ''        {\<newline>'' @
     ''          "suitabilityScore": number,\<newline>'' @
     ''          "category": "school" | "adult" | "both" | "unsuitable",\<newline>'' @
     ''          "educationalPlan": "detailed plan...",\<newline>'' @
     ''          "recommendations": ["rec1", "rec2", ...]\<newline>'' @
     ''        }\<newline>'' @
     ''      ''\<close>

definition not_configured :: string where
  "not_configured =
     ''OpenAI API key is not configured. Please add your API key to the .env file as VITE_OPENAI_API_KEY.''"

definition degraded :: "thrown \<Rightarrow> jsval" where
  "degraded error =
     JObj [(''suitabilityScore'', JNum 0),
           (''category'', JStr ''unsuitable''),
           (''educationalPlan'',
              JStr (case error of JsError msg \<Rightarrow> msg | NonError v \<Rightarrow> ''Analysis failed'')),
           (''recommendations'', JArr [])]"

definition completion_request :: "Project \<Rightarrow> request" where
  "completion_request project =
     \<lparr> messages = [(''user'', prompt project)],
       model = ''gpt-4-turbo-preview'',
       response_format = ''json_object'' \<rparr>"

definition analyzeProject :: "world \<Rightarrow> client option \<Rightarrow> Project \<Rightarrow> thrown + jsval" where
  "analyzeProject w openai project =
     (case openai of
        None \<Rightarrow> Inl (JsError not_configured)
      | Some create \<Rightarrow>
          try_catch
            (bind (create (completion_request project)) (\<lambda>completion.
             case choices completion of
               [] \<Rightarrow> Inl (JsError (cannot_read ''undefined'' ''message''))
             | first # others \<Rightarrow>
                 JSON_parse w (case content (message first) of
                                 None \<Rightarrow> ''{}''
                               | Some s \<Rightarrow> if s \<noteq> [] then s else ''{}'')))
            (\<lambda>error. Inr (degraded error)))"

definition search_url :: "string \<Rightarrow> string" where
  "search_url projectName =
     ''https://api.duckduckgo.com/?q='' @
     encodeURIComponent (projectName @ '' official website EU project'') @
     ''&format=json''"

definition findOfficialWebsite :: "world \<Rightarrow> string \<Rightarrow> thrown + jsval" where
  "findOfficialWebsite w projectName =
     try_catch
       (bind (axios_get w (search_url projectName)) (\<lambda>response_data.
        bind (get_prop response_data ''AbstractURL'') (\<lambda>abstractURL.
        Inr (or_else abstractURL (JStr [])))))
       (\<lambda>error. Inr (JStr []))"


section \<open>App.tsx\<close>

record app_state =
  projects :: "Project list"
  loading :: bool
  analyzing :: bool
  selectedProject :: "Project option"
  filter' :: string
  error :: "string option"

definition loadProjects :: "world \<Rightarrow> nat \<Rightarrow> app_state \<Rightarrow> app_state" where
  "loadProjects w k s =
     (case scrapeProjects w k of
        Inl e \<Rightarrow> s\<lparr>loading := True\<rparr>
      | Inr scrapedProjects \<Rightarrow> s\<lparr>projects := scrapedProjects, loading := False\<rparr>)"

text \<open>The object literal \<^verbatim>\<open>updatedProject\<close>, with the two calls before it.\<close>

definition updatedProject :: "world \<Rightarrow> client option \<Rightarrow> Project \<Rightarrow> thrown + Project" where
  "updatedProject w openai project =
     bind (findOfficialWebsite w (name project)) (\<lambda>website.
     bind (analyzeProject w openai project) (\<lambda>analysis.
     bind (get_prop analysis ''suitabilityScore'') (\<lambda>score.
     bind (get_prop analysis ''category'') (\<lambda>cat.
     bind (get_prop analysis ''educationalPlan'') (\<lambda>plan.
     Inr (project\<lparr> officialWebsite := website,
                    suitabilityScore := score,
                    category := cat,
                    educationalPlan := plan \<rparr>))))))"

definition App_analyzeProject :: "world \<Rightarrow> client option \<Rightarrow> Project \<Rightarrow> app_state \<Rightarrow> app_state" where
  "App_analyzeProject w openai project s =
     (let s1 = s\<lparr>analyzing := True, error := None\<rparr>;
          s2 = (case updatedProject w openai project of
                  Inr updated \<Rightarrow>
                    s1\<lparr> projects := map (\<lambda>p. if id' p = id' project then updated else p) (projects s1),
                        selectedProject := Some updated \<rparr>
                | Inl e \<Rightarrow>
                    s1\<lparr> error := Some (case e of JsError msg \<Rightarrow> msg
                                         | NonError v \<Rightarrow> ''An error occurred during analysis'') \<rparr>)
      in s2\<lparr>analyzing := False\<rparr>)"


section \<open>A listing page, a search endpoint and a completion endpoint to run the pipeline on\<close>

text \<open>
  A page with two items (the second without description or anchor), a search endpoint that
  knows the official site, and a \<^verbatim>\<open>JSON.parse\<close> that knows the three texts the
  completion endpoints below answer with.
\<close>

definition cleanSeas_listing :: "node list" where
  "cleanSeas_listing =
     [Element ''html'' []
       [Element ''body'' []
         [Element ''div'' [(''class'', ''project-item'')]
            [Element ''h3'' [(''class'', ''project-title'')] [Text '' CleanSeas ''],
             Element ''p'' [(''class'', ''project-description'')] [Text ''Ocean plastics education''],
             Element ''a'' [(''href'', ''https://ied.eu/cleanseas'')] [Text ''Read more'']],
          Element ''div'' [(''class'', ''project-item featured'')]
            [Element ''h3'' [(''class'', ''project-title'')] [Text ''SolarKids'']]]]]"

definition cleanSeas_items :: "node list" where
  "cleanSeas_items =
     [Element ''div'' [(''class'', ''project-item'')]
        [Element ''h3'' [(''class'', ''project-title'')] [Text '' CleanSeas ''],
         Element ''p'' [(''class'', ''project-description'')] [Text ''Ocean plastics education''],
         Element ''a'' [(''href'', ''https://ied.eu/cleanseas'')] [Text ''Read more'']],
      Element ''div'' [(''class'', ''project-item featured'')]
        [Element ''h3'' [(''class'', ''project-title'')] [Text ''SolarKids'']]]"

definition answer_text :: string where
  \<open>answer_text =
     ''{"suitabilityScore":82,"category":"school","educationalPlan":"...","recommendations":["Use in grade 9 science"]}''\<close>

definition answer :: jsval where
  "answer =
     JObj [(''suitabilityScore'', JNum 82),
           (''category'', JStr ''school''),
           (''educationalPlan'', JStr ''...''),
           (''recommendations'', JArr [JStr ''Use in grade 9 science''])]"

definition off_schema_text :: string where
  \<open>off_schema_text = ''{"suitabilityScore":"high","category":"university"}''\<close>

definition off_schema :: jsval where
  "off_schema = JObj [(''suitabilityScore'', JStr ''high''), (''category'', JStr ''university'')]"

definition truncated_text :: string where
  \<open>truncated_text = ''{"suitabilityScore":''\<close>

definition scenario :: world where
  "scenario =
     \<lparr> axios_get = (\<lambda>u. if u = listing_url then Inr (JStr ''<html>'')
                         else Inr (JObj [(''AbstractURL'', JStr ''https://cleanseas.example'')])),
       cheerio_load = (\<lambda>data. Inr cleanSeas_listing),
       randomUUID = (\<lambda>k. ''uuid-'' @ replicate k (CHR ''x'')),
       JSON_parse = (\<lambda>t. if t = answer_text then Inr answer
                          else if t = off_schema_text then Inr off_schema
                          else if t = ''{}'' then Inr (JObj [])
                          else Inl (JsError ''Unexpected token'')) \<rparr>"

definition answering :: client where
  "answering request = Inr \<lparr> choices = [\<lparr> message = \<lparr> content = Some answer_text \<rparr> \<rparr>] \<rparr>"

definition answering_off_schema :: client where
  "answering_off_schema request =
     Inr \<lparr> choices = [\<lparr> message = \<lparr> content = Some off_schema_text \<rparr> \<rparr>] \<rparr>"

definition answering_truncated :: client where
  "answering_truncated request =
     Inr \<lparr> choices = [\<lparr> message = \<lparr> content = Some truncated_text \<rparr> \<rparr>] \<rparr>"

definition unreachable :: client where
  "unreachable request = Inl (JsError ''Connection error.'')"

definition cleanSeas :: Project where
  "cleanSeas =
     \<lparr> id' = ''uuid-'', name = ''CleanSeas'', description = ''Ocean plastics education'',
       url = ''https://ied.eu/cleanseas'', officialWebsite = JUndefined, results = None,
       educationalPlan = JUndefined, suitabilityScore = JUndefined,
       category = JStr ''unsuitable'' \<rparr>"


definition loaded :: app_state where
  "loaded =
     \<lparr> projects = [cleanSeas], loading = False, analyzing = False,
       selectedProject = Some cleanSeas, filter' = ''all'', error = None \<rparr>"

text \<open>Variations: the network is down, the search answers without the field or with an
  empty one, the page is not markup, the page has no item.\<close>

definition offline :: world where
  "offline = scenario\<lparr> axios_get := (\<lambda>u. Inl (JsError ''Network Error'')) \<rparr>"

definition no_abstract :: world where
  "no_abstract = scenario\<lparr> axios_get := (\<lambda>u. Inr (JObj [(''Heading'', JStr ''CleanSeas'')])) \<rparr>"

definition empty_abstract :: world where
  "empty_abstract = scenario\<lparr> axios_get := (\<lambda>u. Inr (JObj [(''AbstractURL'', JStr [])])) \<rparr>"

definition not_markup :: world where
  "not_markup = scenario\<lparr> cheerio_load := (\<lambda>data. Inl (JsError ''Unexpected type of markup'')) \<rparr>"

definition empty_page :: world where
  "empty_page = scenario\<lparr> cheerio_load := (\<lambda>data. Inr [Element ''html'' [] [Element ''body'' [] []]]) \<rparr>"


section \<open>Control flow\<close>

lemma bind_Inl_Inr [simp]:
  "bind (Inl e) f = Inl e"
  "bind (Inr v) f = f v"
  by (simp_all add: bind_def)

lemma try_catch_Inl_Inr [simp]:
  "try_catch (Inl e) h = h e"
  "try_catch (Inr v) h = Inr v"
  by (simp_all add: try_catch_def)

lemma try_catch_absorbs: "\<exists>v. try_catch body (\<lambda>error. Inr (d error)) = Inr v"
  by (cases body) simp_all


section \<open>The loop of the scraper, and trimming\<close>

lemma each_item_eq:
  "each_item w k items acc =
     acc @ map (\<lambda>i. scraped_project w (k + i) (items ! i)) [0..<length items]"
proof (induction items arbitrary: k acc)
  case Nil
  show ?case by simp
next
  case (Cons element rest)
  have "[0..<length (element # rest)] = 0 # map Suc [0..<length rest]"
    by (simp add: upt_conv_Cons map_Suc_upt del: upt_Suc)
  then show ?case
    by (simp add: Cons.IH comp_def del: upt_Suc)
qed

lemma last_dropWhile_nonempty:
  assumes "dropWhile P xs \<noteq> []"
  shows "last (dropWhile P xs) = last xs"
proof -
  have "last xs = last (takeWhile P xs @ dropWhile P xs)" by simp
  also have "\<dots> = last (dropWhile P xs)" using assms by (rule last_appendR)
  finally show ?thesis by simp
qed

lemma trim_ends:
  "trim s = [] \<or> (\<not> is_whitespace (hd (trim s)) \<and> \<not> is_whitespace (last (trim s)))"
proof (cases "trim s = []")
  case True
  then show ?thesis by simp
next
  case False
  let ?t = "dropWhile is_whitespace s"
  let ?u = "dropWhile is_whitespace (rev ?t)"
  from False have u: "?u \<noteq> []" by (simp add: trim_def)
  have t: "?t \<noteq> []"
  proof
    assume e: "?t = []"
    have "?u = []" unfolding e by simp
    with u show False by contradiction
  qed
  from u have "\<not> is_whitespace (hd ?u)" by (rule hd_dropWhile)
  then have right: "\<not> is_whitespace (last (trim s))"
    using u by (simp add: trim_def last_rev)
  have "hd (trim s) = last ?u" using u by (simp add: trim_def hd_rev)
  also have "\<dots> = last (rev ?t)" using u by (rule last_dropWhile_nonempty)
  also have "\<dots> = hd ?t" using t by (simp add: last_rev)
  finally have "hd (trim s) = hd ?t" .
  moreover from t have "\<not> is_whitespace (hd ?t)" by (rule hd_dropWhile)
  ultimately show ?thesis using right by simp
qed

lemma scrapeProjects_categories:
  assumes "scrapeProjects w k = Inr ps" and "p \<in> set ps"
  shows "category p = JStr ''unsuitable''"
proof -
  have "ps = [] \<or> (\<exists>items. ps = each_item w k items [])"
    using assms(1) unfolding scrapeProjects_def bind_def try_catch_def
    by (auto split: sum.splits)
  with assms(2) obtain items where "p \<in> set (each_item w k items [])" by auto
  then show ?thesis
    by (auto simp: each_item_eq scraped_project_def)
qed

lemma cleanSeas_items_selected:
  "cleanSeas_items = select (has_class ''project-item'') cleanSeas_listing"
  by (simp add: cleanSeas_items_def cleanSeas_listing_def select_def is_whitespace_def)


section \<open>The classifier and the resolver\<close>

lemma analyzeProject_rejects_iff:
  "(\<exists>e. analyzeProject w openai project = Inl e) \<longleftrightarrow> openai = None"
proof (cases openai)
  case None
  then show ?thesis by (simp add: analyzeProject_def)
next
  case (Some create)
  have "\<exists>v. analyzeProject w (Some create) project = Inr v"
    unfolding analyzeProject_def option.case by (rule try_catch_absorbs)
  with Some show ?thesis by auto
qed

lemma analyzeProject_rejects_with:
  "analyzeProject w openai project = Inl e \<Longrightarrow> e = JsError not_configured"
proof -
  assume r: "analyzeProject w openai project = Inl e"
  then have "openai = None" using analyzeProject_rejects_iff [of w openai project] by blast
  with r show ?thesis by (simp add: analyzeProject_def)
qed

lemma init_openai_None:
  assumes "\<And>key. key \<noteq> [] \<Longrightarrow> \<exists>c. new_OpenAI key = Inr c"
  shows "init_openai env_key new_OpenAI = None \<longleftrightarrow>
         \<not> (\<exists>key. env_key = Inr (Some key) \<and> key \<noteq> [])"
proof (cases env_key)
  case (Inl e)
  then show ?thesis by (simp add: init_openai_def)
next
  case (Inr apiKey)
  show ?thesis
  proof (cases apiKey)
    case None
    with Inr show ?thesis by (simp add: init_openai_def)
  next
    case (Some key)
    show ?thesis
    proof (cases "key = []")
      case True
      with Inr Some show ?thesis by (simp add: init_openai_def)
    next
      case False
      then obtain c where "new_OpenAI key = Inr c" using assms by blast
      with Inr Some False show ?thesis by (simp add: init_openai_def)
    qed
  qed
qed

lemma analyzeProject_raised:
  assumes "create (completion_request project) = Inl e"
  shows "analyzeProject w (Some create) project = Inr (degraded e)"
  using assms by (simp add: analyzeProject_def)

lemma analyzeProject_parsed:
  assumes "create (completion_request project) = Inr completion"
    and "choices completion = first # others"
    and "content (message first) = Some t"
    and "t \<noteq> []"
  shows "analyzeProject w (Some create) project =
           (case JSON_parse w t of Inl e \<Rightarrow> Inr (degraded e) | Inr v \<Rightarrow> Inr v)"
  using assms by (simp add: analyzeProject_def split: sum.splits)

lemma findOfficialWebsite_total: "\<exists>v. findOfficialWebsite w projectName = Inr v"
  unfolding findOfficialWebsite_def by (rule try_catch_absorbs)

lemma get_prop_defined:
  "analysis \<noteq> JNull \<Longrightarrow> analysis \<noteq> JUndefined \<Longrightarrow>
   \<exists>v. get_prop analysis k = Inr v"
  by (cases analysis) simp_all


section \<open>The merge\<close>

lemma updatedProject_Inr:
  "updatedProject w openai project = Inr u \<longleftrightarrow>
     (\<exists>website analysis score cat plan.
        findOfficialWebsite w (name project) = Inr website
      \<and> analyzeProject w openai project = Inr analysis
      \<and> get_prop analysis ''suitabilityScore'' = Inr score
      \<and> get_prop analysis ''category'' = Inr cat
      \<and> get_prop analysis ''educationalPlan'' = Inr plan
      \<and> u = project\<lparr> officialWebsite := website, suitabilityScore := score,
                      category := cat, educationalPlan := plan \<rparr>)"
  unfolding updatedProject_def bind_def
  by (auto split: sum.splits)

lemma updatedProject_id:
  "updatedProject w openai project = Inr u \<Longrightarrow> id' u = id' project"
  by (auto simp: updatedProject_Inr)

lemma selected_after_analysis:
  "updatedProject w openai project = Inr u \<Longrightarrow>
   selectedProject (App_analyzeProject w openai project s) = Some u"
  by (simp add: App_analyzeProject_def Let_def)

lemma analyzeProject_scenario:
  "analyzeProject scenario (Some answering) cleanSeas = Inr answer"
proof -
  have parse: "JSON_parse scenario answer_text = Inr answer" by (simp add: scenario_def)
  have given: "answer_text \<noteq> []" by (simp add: answer_text_def)
  show ?thesis
    using parse given by (simp add: analyzeProject_def answering_def)
qed

lemma findOfficialWebsite_scenario:
  "findOfficialWebsite scenario ''CleanSeas'' = Inr (JStr ''https://cleanseas.example'')"
  by (simp add: findOfficialWebsite_def scenario_def search_url_def listing_url_def or_else_def)

lemma updatedProject_scenario:
  "updatedProject scenario (Some answering) cleanSeas =
       Inr \<lparr> id' = ''uuid-'', name = ''CleanSeas'', description = ''Ocean plastics education'',
              url = ''https://ied.eu/cleanseas'',
              officialWebsite = JStr ''https://cleanseas.example'', results = None,
              educationalPlan = JStr ''...'', suitabilityScore = JNum 82,
              category = JStr ''school'' \<rparr>"
proof -
  have n: "name cleanSeas = ''CleanSeas''" by (simp add: cleanSeas_def)
  show ?thesis
    unfolding updatedProject_def n findOfficialWebsite_scenario analyzeProject_scenario
    by (simp add: answer_def cleanSeas_def)
qed


section \<open>The claims\<close>

subsection \<open>C1: what the merge in App takes from its two collaborators\<close>

text \<open>
  As stated, C1 fails: the record that \<^verbatim>\<open>analyzeProject\<close> of App builds does not
  carry the recommendations of the classifier's result. In the scenario of the
  specification the classifier answers with one recommendation, and the record built for
  CleanSeas has score 82, category school, and no list of recommendations: \<open>results\<close>
  is still absent.
\<close>

theorem App_analyzeProject_drops_recommendations_counterexample:
  "analyzeProject scenario (Some answering) cleanSeas = Inr answer
   \<and> get_prop answer ''recommendations'' = Inr (JArr [JStr ''Use in grade 9 science''])
   \<and> selectedProject (App_analyzeProject scenario (Some answering) cleanSeas loaded) =
       Some \<lparr> id' = ''uuid-'', name = ''CleanSeas'', description = ''Ocean plastics education'',
              url = ''https://ied.eu/cleanseas'',
              officialWebsite = JStr ''https://cleanseas.example'', results = None,
              educationalPlan = JStr ''...'', suitabilityScore = JNum 82,
              category = JStr ''school'' \<rparr>"
proof -
  have r: "get_prop answer ''recommendations'' = Inr (JArr [JStr ''Use in grade 9 science''])"
    by (simp add: answer_def)
  from analyzeProject_scenario r selected_after_analysis [OF updatedProject_scenario]
  show ?thesis by simp
qed

text \<open>
  C1, amended: whenever the classifier returns a result that is not null, the record that
  \<^verbatim>\<open>analyzeProject\<close> of App builds and selects has the id of the input, the
  resolver's output as \<open>officialWebsite\<close>, and the \<open>suitabilityScore\<close>,
  \<open>category\<close> and \<open>educationalPlan\<close> of the classifier's result.
\<close>

theorem App_analyzeProject_merges:
  assumes "analyzeProject w openai project = Inr analysis"
    and "analysis \<noteq> JNull" and "analysis \<noteq> JUndefined"
  shows "\<exists>u website.
           selectedProject (App_analyzeProject w openai project s) = Some u
         \<and> findOfficialWebsite w (name project) = Inr website
         \<and> id' u = id' project
         \<and> officialWebsite u = website
         \<and> get_prop analysis ''suitabilityScore'' = Inr (suitabilityScore u)
         \<and> get_prop analysis ''category'' = Inr (category u)
         \<and> get_prop analysis ''educationalPlan'' = Inr (educationalPlan u)"
proof -
  obtain website where f: "findOfficialWebsite w (name project) = Inr website"
    using findOfficialWebsite_total by blast
  obtain score where s: "get_prop analysis ''suitabilityScore'' = Inr score"
    using assms(2,3) get_prop_defined by blast
  obtain cat where c: "get_prop analysis ''category'' = Inr cat"
    using assms(2,3) get_prop_defined by blast
  obtain plan where p: "get_prop analysis ''educationalPlan'' = Inr plan"
    using assms(2,3) get_prop_defined by blast
  let ?u = "project\<lparr> officialWebsite := website, suitabilityScore := score,
                      category := cat, educationalPlan := plan \<rparr>"
  have "updatedProject w openai project = Inr ?u"
    by (simp add: updatedProject_def f assms(1) s c p)
  then have "selectedProject (App_analyzeProject w openai project s) = Some ?u"
    by (rule selected_after_analysis)
  with f s c p show ?thesis by (intro exI [of _ ?u] exI [of _ website]) simp
qed

theorem App_analyzeProject_merges_witness:
  "\<exists>u website.
           selectedProject (App_analyzeProject scenario (Some answering) cleanSeas loaded) = Some u
         \<and> findOfficialWebsite scenario (name cleanSeas) = Inr website
         \<and> id' u = id' cleanSeas
         \<and> officialWebsite u = website
         \<and> get_prop answer ''suitabilityScore'' = Inr (suitabilityScore u)
         \<and> get_prop answer ''category'' = Inr (category u)
         \<and> get_prop answer ''educationalPlan'' = Inr (educationalPlan u)"
proof -
  have "answer \<noteq> JNull" and "answer \<noteq> JUndefined" by (simp_all add: answer_def)
  with analyzeProject_scenario show ?thesis by (rule App_analyzeProject_merges)
qed

subsection \<open>C2: the configuration error\<close>

text \<open>
  C2: \<^verbatim>\<open>analyzeProject\<close> of the service rejects exactly when the module has no
  client, whatever the project; the error it rejects with is then the configuration error,
  and it rejects with no other. The module has no client exactly when the environment
  holds no non-empty key, given that the client's constructor accepts every non-empty key.
\<close>

theorem analyzeProject_configuration_error:
  "((\<exists>e. analyzeProject w openai project = Inl e) \<longleftrightarrow> openai = None)
   \<and> (\<forall>e. analyzeProject w openai project = Inl e \<longrightarrow> e = JsError not_configured)
   \<and> ((\<forall>key. key \<noteq> [] \<longrightarrow> (\<exists>c. new_OpenAI key = Inr c)) \<longrightarrow>
        (init_openai env_key new_OpenAI = None \<longleftrightarrow>
           \<not> (\<exists>key. env_key = Inr (Some key) \<and> key \<noteq> [])))"
proof (intro conjI)
  show "(\<exists>e. analyzeProject w openai project = Inl e) \<longleftrightarrow> openai = None"
    by (rule analyzeProject_rejects_iff)
  show "\<forall>e. analyzeProject w openai project = Inl e \<longrightarrow> e = JsError not_configured"
    by (intro allI impI) (rule analyzeProject_rejects_with)
  show "(\<forall>key. key \<noteq> [] \<longrightarrow> (\<exists>c. new_OpenAI key = Inr c)) \<longrightarrow>
        (init_openai env_key new_OpenAI = None \<longleftrightarrow>
           \<not> (\<exists>key. env_key = Inr (Some key) \<and> key \<noteq> []))"
  proof
    assume "\<forall>key. key \<noteq> [] \<longrightarrow> (\<exists>c. new_OpenAI key = Inr c)"
    then have "\<And>key. key \<noteq> [] \<Longrightarrow> \<exists>c. new_OpenAI key = Inr c" by blast
    then show "init_openai env_key new_OpenAI = None \<longleftrightarrow>
           \<not> (\<exists>key. env_key = Inr (Some key) \<and> key \<noteq> [])"
      by (rule init_openai_None)
  qed
qed

theorem analyzeProject_configuration_error_witness:
  "analyzeProject scenario (init_openai (Inr None) (\<lambda>key. Inr answering)) cleanSeas
     = Inl (JsError not_configured)
   \<and> (\<nexists>e. analyzeProject scenario (init_openai (Inr (Some ''sk-test'')) (\<lambda>key. Inr answering))
            cleanSeas = Inl e)"
proof -
  let ?new = "\<lambda>key :: string. (Inr answering :: thrown + client)"
  let ?without = "init_openai (Inr None) ?new"
  let ?with_key = "init_openai (Inr (Some ''sk-test'')) ?new"
  have ctor: "\<forall>key. key \<noteq> [] \<longrightarrow> (\<exists>c. ?new key = Inr c)"
    by simp
  have absent: "\<not> (\<exists>key. (Inr None :: thrown + string option) = Inr (Some key) \<and> key \<noteq> [])"
    by simp
  have present: "\<exists>key. (Inr (Some ''sk-test'') :: thrown + string option) = Inr (Some key) \<and> key \<noteq> []"
    by simp
  note without = analyzeProject_configuration_error
    [where w = scenario and openai = ?without and project = cleanSeas
       and new_OpenAI = ?new and env_key = "Inr None"]
  note with_key = analyzeProject_configuration_error
    [where w = scenario and openai = ?with_key and project = cleanSeas
       and new_OpenAI = ?new and env_key = "Inr (Some ''sk-test'')"]
  from without ctor absent have "?without = None" by blast
  with without obtain e where
    e: "analyzeProject scenario ?without cleanSeas = Inl e" by blast
  with without have "e = JsError not_configured" by blast
  with e have first: "analyzeProject scenario ?without cleanSeas = Inl (JsError not_configured)"
    by simp
  from with_key ctor present have "?with_key \<noteq> None" by blast
  with with_key have
    "\<nexists>e. analyzeProject scenario ?with_key cleanSeas = Inl e"
    by blast
  with first show ?thesis by (rule conjI)
qed

subsection \<open>C3: the degraded result\<close>

text \<open>
  As stated, C3 fails: the educational plan of the degraded result is the message of the
  error, and that message may be empty. When the completion call raises an error with an
  empty message, the plan is the empty string.
\<close>

theorem analyzeProject_empty_plan_counterexample:
  "analyzeProject scenario (Some (\<lambda>request. Inl (JsError []))) cleanSeas =
     Inr (JObj [(''suitabilityScore'', JNum 0),
                (''category'', JStr ''unsuitable''),
                (''educationalPlan'', JStr []),
                (''recommendations'', JArr [])])"
  by (simp add: analyzeProject_def degraded_def)

text \<open>
  C3, amended: with a client, when the completion call raises, or answers with a non-empty
  text that \<^verbatim>\<open>JSON.parse\<close> rejects, \<^verbatim>\<open>analyzeProject\<close> of the service returns
  (and does not throw) the result with score 0, category unsuitable, no recommendation, and
  as educational plan the message of the error, or \<^verbatim>\<open>Analysis failed\<close> when what was
  thrown is not an error; the plan is non-empty unless the error has an empty message.
\<close>

theorem analyzeProject_degraded:
  assumes "create (completion_request project) = Inl e
           \<or> (create (completion_request project) = Inr completion
               \<and> choices completion = first # others
               \<and> content (message first) = Some t \<and> t \<noteq> []
               \<and> JSON_parse w t = Inl e)"
  shows "analyzeProject w (Some create) project =
           Inr (JObj [(''suitabilityScore'', JNum 0),
                      (''category'', JStr ''unsuitable''),
                      (''educationalPlan'',
                         JStr (case e of JsError msg \<Rightarrow> msg | NonError v \<Rightarrow> ''Analysis failed'')),
                      (''recommendations'', JArr [])])
       \<and> (e \<noteq> JsError [] \<longrightarrow>
            (case e of JsError msg \<Rightarrow> msg | NonError v \<Rightarrow> ''Analysis failed'') \<noteq> [])"
proof -
  have "analyzeProject w (Some create) project = Inr (degraded e)"
    using assms
  proof
    assume "create (completion_request project) = Inl e"
    then show ?thesis by (rule analyzeProject_raised)
  next
    assume c: "create (completion_request project) = Inr completion
               \<and> choices completion = first # others
               \<and> content (message first) = Some t \<and> t \<noteq> []
               \<and> JSON_parse w t = Inl e"
    then have "analyzeProject w (Some create) project =
           (case JSON_parse w t of Inl e \<Rightarrow> Inr (degraded e) | Inr v \<Rightarrow> Inr v)"
      by (intro analyzeProject_parsed [of create project completion first others t]) simp_all
    with c show ?thesis by simp
  qed
  then show ?thesis
    by (cases e) (simp_all add: degraded_def)
qed

theorem analyzeProject_degraded_witness:
  "analyzeProject scenario (Some unreachable) cleanSeas =
     Inr (JObj [(''suitabilityScore'', JNum 0),
                (''category'', JStr ''unsuitable''),
                (''educationalPlan'', JStr ''Connection error.''),
                (''recommendations'', JArr [])])
   \<and> analyzeProject scenario (Some answering_truncated) cleanSeas =
     Inr (JObj [(''suitabilityScore'', JNum 0),
                (''category'', JStr ''unsuitable''),
                (''educationalPlan'', JStr ''Unexpected token''),
                (''recommendations'', JArr [])])"
proof -
  have raised: "unreachable (completion_request cleanSeas) = Inl (JsError ''Connection error.'')"
    by (simp add: unreachable_def)
  have parse: "JSON_parse scenario truncated_text = Inl (JsError ''Unexpected token'')"
    by (simp add: scenario_def truncated_text_def answer_text_def off_schema_text_def)
  have given: "truncated_text \<noteq> []" by (simp add: truncated_text_def)
  have malformed:
    "answering_truncated (completion_request cleanSeas) =
        Inr \<lparr> choices = [\<lparr> message = \<lparr> content = Some truncated_text \<rparr> \<rparr>] \<rparr>
     \<and> choices \<lparr> choices = [\<lparr> message = \<lparr> content = Some truncated_text \<rparr> \<rparr>] \<rparr> =
           \<lparr> message = \<lparr> content = Some truncated_text \<rparr> \<rparr> # []
     \<and> content (message \<lparr> message = \<lparr> content = Some truncated_text \<rparr> \<rparr>) = Some truncated_text
     \<and> truncated_text \<noteq> []
     \<and> JSON_parse scenario truncated_text = Inl (JsError ''Unexpected token'')"
    using parse given by (simp add: answering_truncated_def)
  from analyzeProject_degraded
         [where create = unreachable and project = cleanSeas and w = scenario
            and e = "JsError ''Connection error.''", OF disjI1, OF raised]
       analyzeProject_degraded
         [where create = answering_truncated and project = cleanSeas and w = scenario
            and e = "JsError ''Unexpected token''", OF disjI2, OF malformed]
  show ?thesis by simp
qed

subsection \<open>C4: the values of category\<close>

text \<open>
  As stated, C4 fails: the merge assigns to \<open>category\<close> whatever the completion's JSON
  holds under that name. When the completion answers with the category
  \<^verbatim>\<open>university\<close>, the record built for CleanSeas has that category (and the text
  \<^verbatim>\<open>high\<close> as its score).
\<close>

theorem updatedProject_off_schema_counterexample:
  "updatedProject scenario (Some answering_off_schema) cleanSeas =
       Inr \<lparr> id' = ''uuid-'', name = ''CleanSeas'', description = ''Ocean plastics education'',
              url = ''https://ied.eu/cleanseas'',
              officialWebsite = JStr ''https://cleanseas.example'', results = None,
              educationalPlan = JUndefined, suitabilityScore = JStr ''high'',
              category = JStr ''university'' \<rparr>
   \<and> \<not> is_category (JStr ''university'')"
proof -
  have parse: "JSON_parse scenario off_schema_text = Inr off_schema"
    by (simp add: scenario_def off_schema_text_def answer_text_def)
  have given: "off_schema_text \<noteq> []" by (simp add: off_schema_text_def)
  have a: "analyzeProject scenario (Some answering_off_schema) cleanSeas = Inr off_schema"
    using parse given by (simp add: analyzeProject_def answering_off_schema_def)
  have n: "name cleanSeas = ''CleanSeas''" by (simp add: cleanSeas_def)
  have "updatedProject scenario (Some answering_off_schema) cleanSeas =
       Inr \<lparr> id' = ''uuid-'', name = ''CleanSeas'', description = ''Ocean plastics education'',
              url = ''https://ied.eu/cleanseas'',
              officialWebsite = JStr ''https://cleanseas.example'', results = None,
              educationalPlan = JUndefined, suitabilityScore = JStr ''high'',
              category = JStr ''university'' \<rparr>"
    unfolding updatedProject_def n findOfficialWebsite_scenario a
    by (simp add: off_schema_def cleanSeas_def)
  then show ?thesis by (simp add: is_category_def)
qed

text \<open>
  C4, amended: every project that \<^verbatim>\<open>scrapeProjects\<close> returns has the category
  unsuitable, the degraded result has the category unsuitable, which is one of the four
  values, and the merge in App assigns to \<open>category\<close> exactly the value that the
  classifier's result holds under that name.
\<close>

theorem category_of_produced_projects:
  "(\<forall>ps. scrapeProjects w k = Inr ps \<longrightarrow> (\<forall>p \<in> set ps. category p = JStr ''unsuitable''))
   \<and> get_prop (degraded e) ''category'' = Inr (JStr ''unsuitable'')
   \<and> is_category (JStr ''unsuitable'')
   \<and> (\<forall>u. updatedProject w openai project = Inr u \<longrightarrow>
         (\<exists>analysis. analyzeProject w openai project = Inr analysis
                    \<and> get_prop analysis ''category'' = Inr (category u)))"
proof -
  have "\<forall>u. updatedProject w openai project = Inr u \<longrightarrow>
         (\<exists>analysis. analyzeProject w openai project = Inr analysis
                    \<and> get_prop analysis ''category'' = Inr (category u))"
    unfolding updatedProject_Inr by auto
  moreover have "\<forall>ps. scrapeProjects w k = Inr ps \<longrightarrow> (\<forall>p \<in> set ps. category p = JStr ''unsuitable'')"
    using scrapeProjects_categories by blast
  ultimately show ?thesis by (simp add: degraded_def is_category_def)
qed

theorem category_of_produced_projects_witness:
  "(\<exists>ps. scrapeProjects scenario 0 = Inr ps \<and> ps \<noteq> []
         \<and> category (hd ps) = JStr ''unsuitable'')
   \<and> (\<exists>analysis. analyzeProject scenario (Some answering) cleanSeas = Inr analysis
                    \<and> get_prop analysis ''category'' = Inr (JStr ''school''))"
proof -
  note fact = category_of_produced_projects
    [where w = scenario and k = 0 and openai = "Some answering" and project = cleanSeas]
  have run: "scrapeProjects scenario 0 =
               Inr (each_item scenario 0 cleanSeas_items [])"
    by (simp add: scrapeProjects_def cleanSeas_items_selected) (simp add: scenario_def)
  have ne: "each_item scenario 0 cleanSeas_items [] \<noteq> []"
    by (simp add: cleanSeas_items_def)
  then have "hd (each_item scenario 0 cleanSeas_items []) \<in> set (each_item scenario 0 cleanSeas_items [])"
    by (rule hd_in_set)
  with fact run have "category (hd (each_item scenario 0 cleanSeas_items [])) = JStr ''unsuitable''"
    by blast
  with run ne have scraped: "\<exists>ps. scrapeProjects scenario 0 = Inr ps \<and> ps \<noteq> []
         \<and> category (hd ps) = JStr ''unsuitable''"
    by blast
  from fact updatedProject_scenario
  have "\<exists>analysis. analyzeProject scenario (Some answering) cleanSeas = Inr analysis
                    \<and> get_prop analysis ''category'' = Inr (category
       \<lparr> id' = ''uuid-'', name = ''CleanSeas'', description = ''Ocean plastics education'',
              url = ''https://ied.eu/cleanseas'',
              officialWebsite = JStr ''https://cleanseas.example'', results = None,
              educationalPlan = JStr ''...'', suitabilityScore = JNum 82,
              category = JStr ''school'' \<rparr>)"
    by blast
  then have "\<exists>analysis. analyzeProject scenario (Some answering) cleanSeas = Inr analysis
                    \<and> get_prop analysis ''category'' = Inr (JStr ''school'')"
    by simp
  with scraped show ?thesis by (rule conjI)
qed

subsection \<open>C5: a well-formed answer is returned as it is\<close>

text \<open>
  C5: with a client, when the first choice of the completion holds a text (never empty for
  a JSON object) that \<^verbatim>\<open>JSON.parse\<close> reads as an object with the four fields,
  \<^verbatim>\<open>analyzeProject\<close> of the service returns that object, and its four fields are
  the ones of the answer.
\<close>

theorem analyzeProject_well_formed:
  assumes "create (completion_request project) = Inr completion"
    and "choices completion = first # others"
    and "content (message first) = Some t"
    and "t \<noteq> []"
    and "JSON_parse w t = Inr (JObj props)"
    and "map_of props ''suitabilityScore'' = Some score"
    and "map_of props ''category'' = Some cat"
    and "map_of props ''educationalPlan'' = Some plan"
    and "map_of props ''recommendations'' = Some recs"
  shows "analyzeProject w (Some create) project = Inr (JObj props)
       \<and> get_prop (JObj props) ''suitabilityScore'' = Inr score
       \<and> get_prop (JObj props) ''category'' = Inr cat
       \<and> get_prop (JObj props) ''educationalPlan'' = Inr plan
       \<and> get_prop (JObj props) ''recommendations'' = Inr recs"
  using assms analyzeProject_parsed [of create project completion first others t w]
  by simp

theorem analyzeProject_well_formed_witness:
  "analyzeProject scenario (Some answering) cleanSeas = Inr answer
   \<and> get_prop answer ''suitabilityScore'' = Inr (JNum 82)
   \<and> get_prop answer ''category'' = Inr (JStr ''school'')
   \<and> get_prop answer ''educationalPlan'' = Inr (JStr ''...'')
   \<and> get_prop answer ''recommendations'' = Inr (JArr [JStr ''Use in grade 9 science''])"
proof -
  have "JSON_parse scenario answer_text = Inr answer" by (simp add: scenario_def)
  moreover have "answer_text \<noteq> []" by (simp add: answer_text_def)
  ultimately show ?thesis
    unfolding answer_def
    using analyzeProject_well_formed
      [where create = answering and project = cleanSeas and w = scenario and t = answer_text
         and completion = "\<lparr> choices = [\<lparr> message = \<lparr> content = Some answer_text \<rparr> \<rparr>] \<rparr>"
         and first = "\<lparr> message = \<lparr> content = Some answer_text \<rparr> \<rparr>" and others = "[]"
         and props = "[(''suitabilityScore'', JNum 82),
           (''category'', JStr ''school''),
           (''educationalPlan'', JStr ''...''),
           (''recommendations'', JArr [JStr ''Use in grade 9 science''])]"
         and score = "JNum 82" and cat = "JStr ''school''" and plan = "JStr ''...''"
         and recs = "JArr [JStr ''Use in grade 9 science'']"]
    by (simp add: answering_def answer_def)
qed

subsection \<open>C6: one record per item of the listing\<close>

text \<open>
  C6: when the listing is fetched and parsed, and the UUID generator returns distinct,
  non-empty values during the call, \<^verbatim>\<open>scrapeProjects\<close> returns one record per
  element of class \<^verbatim>\<open>project-item\<close>, in document order; the ids are non-empty and
  pairwise distinct, every category is unsuitable, name and description are the trimmed
  texts of the title and description elements, and url is the href of the first anchor, or
  the empty string.
\<close>

theorem scrapeProjects_items:
  assumes fetched: "axios_get w listing_url = Inr d"
    and parsed: "cheerio_load w d = Inr document"
    and items: "items = select (has_class ''project-item'') document"
    and fresh: "distinct (map (\<lambda>i. randomUUID w (k + i)) [0..<length items])"
    and nonempty: "\<forall>i < length items. randomUUID w (k + i) \<noteq> []"
  shows "\<exists>ps. scrapeProjects w k = Inr ps
           \<and> length ps = length items
           \<and> distinct (map id' ps)
           \<and> (\<forall>i < length items.
                 id' (ps ! i) \<noteq> []
               \<and> category (ps ! i) = JStr ''unsuitable''
               \<and> name (ps ! i) = trim (text_of (find_in (has_class ''project-title'') (items ! i)))
               \<and> description (ps ! i) =
                   trim (text_of (find_in (has_class ''project-description'') (items ! i)))
               \<and> url (ps ! i) =
                   (case attr ''href'' (find_in (has_tag ''a'') (items ! i)) of
                      None \<Rightarrow> [] | Some h \<Rightarrow> h))"
proof -
  let ?ps = "map (\<lambda>i. scraped_project w (k + i) (items ! i)) [0..<length items]"
  have run: "scrapeProjects w k = Inr ?ps"
    by (simp add: scrapeProjects_def fetched parsed items [symmetric] each_item_eq)
  have ids: "map id' ?ps = map (\<lambda>i. randomUUID w (k + i)) [0..<length items]"
    by (simp add: scraped_project_def comp_def)
  have each: "\<forall>i < length items.
                 id' (?ps ! i) \<noteq> []
               \<and> category (?ps ! i) = JStr ''unsuitable''
               \<and> name (?ps ! i) = trim (text_of (find_in (has_class ''project-title'') (items ! i)))
               \<and> description (?ps ! i) =
                   trim (text_of (find_in (has_class ''project-description'') (items ! i)))
               \<and> url (?ps ! i) =
                   (case attr ''href'' (find_in (has_tag ''a'') (items ! i)) of
                      None \<Rightarrow> [] | Some h \<Rightarrow> h)"
    using nonempty by (auto simp: scraped_project_def split: option.splits)
  have uniq: "distinct (map id' ?ps)"
    unfolding ids by (rule fresh)
  have len: "length ?ps = length items" by simp
  from run len uniq each show ?thesis by blast
qed

theorem scrapeProjects_items_witness:
  "\<exists>ps. scrapeProjects scenario 0 = Inr ps
      \<and> length ps = 2
      \<and> distinct (map id' ps)
      \<and> id' (ps ! 0) \<noteq> [] \<and> id' (ps ! 1) \<noteq> []
      \<and> category (ps ! 0) = JStr ''unsuitable'' \<and> category (ps ! 1) = JStr ''unsuitable''
      \<and> name (ps ! 0) = ''CleanSeas'' \<and> name (ps ! 1) = ''SolarKids''
      \<and> description (ps ! 0) = ''Ocean plastics education'' \<and> description (ps ! 1) = []
      \<and> url (ps ! 0) = ''https://ied.eu/cleanseas'' \<and> url (ps ! 1) = []"
proof -
  have fetched: "axios_get scenario listing_url = Inr (JStr ''<html>'')"
    by (simp add: scenario_def)
  have parsed: "cheerio_load scenario (JStr ''<html>'') = Inr cleanSeas_listing"
    by (simp add: scenario_def)
  have two: "length cleanSeas_items = 2" by (simp add: cleanSeas_items_def)
  have upt: "[0..<length cleanSeas_items] = [0, 1]"
    unfolding two by (simp add: upt_rec)
  have fresh: "distinct (map (\<lambda>i. randomUUID scenario (0 + i)) [0..<length cleanSeas_items])"
    unfolding upt by (simp add: scenario_def)
  have nonempty: "\<forall>i < length cleanSeas_items. randomUUID scenario (0 + i) \<noteq> []"
    by (simp add: scenario_def)
  from scrapeProjects_items [OF fetched parsed cleanSeas_items_selected fresh nonempty]
  obtain ps where run: "scrapeProjects scenario 0 = Inr ps"
    and len: "length ps = length cleanSeas_items"
    and uniq: "distinct (map id' ps)"
    and each: "\<forall>i < length cleanSeas_items.
                 id' (ps ! i) \<noteq> []
               \<and> category (ps ! i) = JStr ''unsuitable''
               \<and> name (ps ! i) =
                   trim (text_of (find_in (has_class ''project-title'') (cleanSeas_items ! i)))
               \<and> description (ps ! i) =
                   trim (text_of (find_in (has_class ''project-description'') (cleanSeas_items ! i)))
               \<and> url (ps ! i) =
                   (case attr ''href'' (find_in (has_tag ''a'') (cleanSeas_items ! i)) of
                      None \<Rightarrow> [] | Some h \<Rightarrow> h)"
    by blast
  have "0 < length cleanSeas_items" and "1 < length cleanSeas_items" using two by simp_all
  with each have
    a: "id' (ps ! 0) \<noteq> []
               \<and> category (ps ! 0) = JStr ''unsuitable''
               \<and> name (ps ! 0) =
                   trim (text_of (find_in (has_class ''project-title'') (cleanSeas_items ! 0)))
               \<and> description (ps ! 0) =
                   trim (text_of (find_in (has_class ''project-description'') (cleanSeas_items ! 0)))
               \<and> url (ps ! 0) =
                   (case attr ''href'' (find_in (has_tag ''a'') (cleanSeas_items ! 0)) of
                      None \<Rightarrow> [] | Some h \<Rightarrow> h)"
    and b: "id' (ps ! 1) \<noteq> []
               \<and> category (ps ! 1) = JStr ''unsuitable''
               \<and> name (ps ! 1) =
                   trim (text_of (find_in (has_class ''project-title'') (cleanSeas_items ! 1)))
               \<and> description (ps ! 1) =
                   trim (text_of (find_in (has_class ''project-description'') (cleanSeas_items ! 1)))
               \<and> url (ps ! 1) =
                   (case attr ''href'' (find_in (has_tag ''a'') (cleanSeas_items ! 1)) of
                      None \<Rightarrow> [] | Some h \<Rightarrow> h)"
    by blast+
  have first: "name (ps ! 0) = ''CleanSeas'' \<and> description (ps ! 0) = ''Ocean plastics education''
      \<and> url (ps ! 0) = ''https://ied.eu/cleanseas''"
    using a by (simp add: cleanSeas_items_def find_in_def text_of_def trim_def is_whitespace_def)
  have second: "name (ps ! 1) = ''SolarKids'' \<and> description (ps ! 1) = [] \<and> url (ps ! 1) = []"
    using b by (simp add: cleanSeas_items_def find_in_def text_of_def trim_def is_whitespace_def)
  from run len two uniq a b first second show ?thesis by auto
qed

subsection \<open>C7: the scraper absorbs every failure\<close>

text \<open>
  C7: \<^verbatim>\<open>scrapeProjects\<close> never throws, and it returns the empty sequence when the
  request fails, when the response cannot be parsed, and when the page has no element of
  class \<^verbatim>\<open>project-item\<close>.
\<close>

theorem scrapeProjects_absorbs_failure:
  "(\<exists>ps. scrapeProjects w k = Inr ps)
   \<and> ((\<exists>e. axios_get w listing_url = Inl e) \<longrightarrow> scrapeProjects w k = Inr [])
   \<and> (axios_get w listing_url = Inr d \<and> (\<exists>e. cheerio_load w d = Inl e) \<longrightarrow>
        scrapeProjects w k = Inr [])
   \<and> (axios_get w listing_url = Inr d \<and> cheerio_load w d = Inr document
        \<and> select (has_class ''project-item'') document = [] \<longrightarrow>
        scrapeProjects w k = Inr [])"
proof -
  have "\<exists>ps. scrapeProjects w k = Inr ps"
    unfolding scrapeProjects_def by (rule try_catch_absorbs)
  then show ?thesis
    by (auto simp: scrapeProjects_def)
qed

theorem scrapeProjects_absorbs_failure_witness:
  "scrapeProjects offline 0 = Inr []
   \<and> scrapeProjects not_markup 0 = Inr []
   \<and> scrapeProjects empty_page 0 = Inr []"
proof -
  have down: "\<exists>e. axios_get offline listing_url = Inl e"
    by (simp add: offline_def)
  have unparsed: "axios_get not_markup listing_url = Inr (JStr ''<html>'')
      \<and> (\<exists>e. cheerio_load not_markup (JStr ''<html>'') = Inl e)"
    by (simp add: not_markup_def scenario_def)
  have none: "axios_get empty_page listing_url = Inr (JStr ''<html>'')
      \<and> cheerio_load empty_page (JStr ''<html>'') = Inr [Element ''html'' [] [Element ''body'' [] []]]
      \<and> select (has_class ''project-item'') [Element ''html'' [] [Element ''body'' [] []]] = []"
    by (simp add: empty_page_def scenario_def select_def)
  from down unparsed none
    scrapeProjects_absorbs_failure [where w = offline and k = 0]
    scrapeProjects_absorbs_failure [where w = not_markup and k = 0 and d = "JStr ''<html>''"]
    scrapeProjects_absorbs_failure [where w = empty_page and k = 0 and d = "JStr ''<html>''"
      and document = "[Element ''html'' [] [Element ''body'' [] []]]"]
  show ?thesis by simp
qed

subsection \<open>C8: the resolver\<close>

text \<open>
  C8: \<^verbatim>\<open>findOfficialWebsite\<close> never throws, whatever the project name; it returns
  the empty string when the request fails (an error or a timeout of the search endpoint)
  and when the JSON response omits \<^verbatim>\<open>AbstractURL\<close>; when the field is present,
  with a text as the endpoint gives it, it returns that text, the empty one included.
\<close>

theorem findOfficialWebsite_result:
  "(\<exists>v. findOfficialWebsite w projectName = Inr v)
   \<and> ((\<exists>e. axios_get w (search_url projectName) = Inl e) \<longrightarrow>
        findOfficialWebsite w projectName = Inr (JStr []))
   \<and> (axios_get w (search_url projectName) = Inr (JObj props) \<and> map_of props ''AbstractURL'' = None \<longrightarrow>
        findOfficialWebsite w projectName = Inr (JStr []))
   \<and> (axios_get w (search_url projectName) = Inr (JObj props)
        \<and> map_of props ''AbstractURL'' = Some (JStr t) \<longrightarrow>
        findOfficialWebsite w projectName = Inr (JStr t))"
  using findOfficialWebsite_total [of w projectName]
  by (auto simp: findOfficialWebsite_def or_else_def)

theorem findOfficialWebsite_result_witness:
  "findOfficialWebsite offline ''CleanSeas'' = Inr (JStr [])
   \<and> findOfficialWebsite no_abstract ''CleanSeas'' = Inr (JStr [])
   \<and> findOfficialWebsite scenario ''CleanSeas'' = Inr (JStr ''https://cleanseas.example'')
   \<and> findOfficialWebsite empty_abstract ''CleanSeas'' = Inr (JStr [])"
proof -
  have down: "\<exists>e. axios_get offline (search_url ''CleanSeas'') = Inl e"
    by (simp add: offline_def)
  have omitted: "axios_get no_abstract (search_url ''CleanSeas'') = Inr (JObj [(''Heading'', JStr ''CleanSeas'')])
      \<and> map_of [(''Heading'', JStr ''CleanSeas'')] ''AbstractURL'' = None"
    by (simp add: no_abstract_def)
  have present: "axios_get scenario (search_url ''CleanSeas'') =
        Inr (JObj [(''AbstractURL'', JStr ''https://cleanseas.example'')])
      \<and> map_of [(''AbstractURL'', JStr ''https://cleanseas.example'')] ''AbstractURL'' =
          Some (JStr ''https://cleanseas.example'')"
    by (simp add: scenario_def search_url_def listing_url_def)
  have blank: "axios_get empty_abstract (search_url ''CleanSeas'') =
        Inr (JObj [(''AbstractURL'', JStr [])])
      \<and> map_of [(''AbstractURL'', JStr [])] ''AbstractURL'' = Some (JStr [])"
    by (simp add: empty_abstract_def)
  from down omitted present blank
    findOfficialWebsite_result [where w = offline and projectName = "''CleanSeas''"]
    findOfficialWebsite_result [where w = no_abstract and projectName = "''CleanSeas''"
      and props = "[(''Heading'', JStr ''CleanSeas'')]"]
    findOfficialWebsite_result [where w = scenario and projectName = "''CleanSeas''"
      and props = "[(''AbstractURL'', JStr ''https://cleanseas.example'')]"
      and t = "''https://cleanseas.example''"]
    findOfficialWebsite_result [where w = empty_abstract and projectName = "''CleanSeas''"
      and props = "[(''AbstractURL'', JStr [])]" and t = "[]"]
  show ?thesis by simp
qed

subsection \<open>C9: analysing twice\<close>

text \<open>
  C9: with the same collaborators, analysing the same project a second time, in the state
  that the first analysis left, changes nothing: the same record is built, selected and
  stored, and the same error, if any, is shown.
\<close>

theorem App_analyzeProject_idempotent:
  "App_analyzeProject w openai project (App_analyzeProject w openai project s) =
   App_analyzeProject w openai project s"
proof (cases "updatedProject w openai project")
  case (Inl e)
  then show ?thesis by (simp add: App_analyzeProject_def Let_def)
next
  case (Inr u)
  then have "id' u = id' project" by (rule updatedProject_id)
  then have "map (\<lambda>p. if id' p = id' project then u else p)
               (map (\<lambda>p. if id' p = id' project then u else p) (projects s)) =
             map (\<lambda>p. if id' p = id' project then u else p) (projects s)"
    by simp
  with Inr show ?thesis by (simp add: App_analyzeProject_def Let_def)
qed

theorem App_analyzeProject_idempotent_witness:
  "App_analyzeProject scenario (Some answering) cleanSeas
     (App_analyzeProject scenario (Some answering) cleanSeas loaded) =
   App_analyzeProject scenario (Some answering) cleanSeas loaded"
  by (rule App_analyzeProject_idempotent)

subsection \<open>C10: what the merge leaves alone\<close>

text \<open>
  C10: the record that \<^verbatim>\<open>analyzeProject\<close> of App builds and selects is the input
  with only \<open>officialWebsite\<close>, \<open>suitabilityScore\<close>, \<open>category\<close> and
  \<open>educationalPlan\<close> overridden: id, name, description, url and results are the
  input's.
\<close>

theorem App_analyzeProject_frame:
  assumes "updatedProject w openai project = Inr u"
  shows "selectedProject (App_analyzeProject w openai project s) = Some u
       \<and> id' u = id' project
       \<and> name u = name project
       \<and> description u = description project
       \<and> url u = url project
       \<and> results u = results project
       \<and> u = project\<lparr> officialWebsite := officialWebsite u,
                       suitabilityScore := suitabilityScore u,
                       category := category u,
                       educationalPlan := educationalPlan u \<rparr>"
proof -
  from assms have "selectedProject (App_analyzeProject w openai project s) = Some u"
    by (rule selected_after_analysis)
  moreover from assms obtain website score cat plan where
    "u = project\<lparr> officialWebsite := website, suitabilityScore := score,
                  category := cat, educationalPlan := plan \<rparr>"
    unfolding updatedProject_Inr by blast
  ultimately show ?thesis by simp
qed

theorem App_analyzeProject_frame_witness:
  "selectedProject (App_analyzeProject scenario (Some answering) cleanSeas loaded) =
     Some \<lparr> id' = ''uuid-'', name = ''CleanSeas'', description = ''Ocean plastics education'',
              url = ''https://ied.eu/cleanseas'',
              officialWebsite = JStr ''https://cleanseas.example'', results = None,
              educationalPlan = JStr ''...'', suitabilityScore = JNum 82,
              category = JStr ''school'' \<rparr>
   \<and> id' cleanSeas = ''uuid-'' \<and> name cleanSeas = ''CleanSeas''
   \<and> description cleanSeas = ''Ocean plastics education''
   \<and> url cleanSeas = ''https://ied.eu/cleanseas'' \<and> results cleanSeas = None"
  using App_analyzeProject_frame [OF updatedProject_scenario, of loaded]
  by (simp add: cleanSeas_def)

end
